theory Spec2Isabelle
  imports Main
begin

section \<open>Python values, failures and effects\<close>

text \<open>
  The values that travel through \<^verbatim>\<open>config.py\<close>: what an environment variable or a
  parsed configuration document can hold. The model covers \<^verbatim>\<open>None\<close>, booleans,
  integers, strings and dictionaries with string keys.
\<close>

datatype pyval =
    PNone
  | PBool bool
  | PInt int
  | PStr string
  | PDict "(string \<times> pyval) list"

datatype py_exc = KeyError | TypeError | ValueError | IndexError | AttributeError

text \<open>A call either raises an exception or leaves the process through \<^verbatim>\<open>sys.exit\<close>.\<close>

datatype failure = Raised py_exc | SysExit int

datatype level = DEBUG | INFO | WARNING | ERROR

text \<open>
  The messages of \<^verbatim>\<open>pipeless_ai.lib.messages\<close> and the two sockets of
  \<^verbatim>\<open>pipeless_ai.lib.connection\<close>. A frame carries width, height, pixel data and
  the three time stamps. \<open>Serialized m\<close> stands for the bytes \<^verbatim>\<open>m.serialize()\<close>.
\<close>

datatype msg =
    EndOfStreamMsg
  | RgbImageMsg int int "nat list" int int int
  | StreamCapsMsg string
  | StreamTagsMsg string

datatype serialized = Serialized msg

datatype socket = InputOutputSocket | InputPushSocket

text \<open>
  Everything a function does besides returning: a call of the logger (its level), the
  two send methods of a socket, \<^verbatim>\<open>loop.quit()\<close>, a link of a pad (by name) to the
  sink pad of videoconvert, and \<^verbatim>\<open>buffer.unmap\<close>.
\<close>

datatype effect =
    Log level
  | Send socket serialized
  | EnsureSend socket serialized
  | LoopQuit
  | PadLink string
  | Unmap

type_synonym 'a io = "effect list \<times> (failure + 'a)"

definition ret :: "'a \<Rightarrow> 'a io" where
  "ret x = ([], Inr x)"

definition bnd :: "'a io \<Rightarrow> ('a \<Rightarrow> 'b io) \<Rightarrow> 'b io" where
  "bnd m f =
     (case m of
        (es, Inl e) \<Rightarrow> (es, Inl e)
      | (es, Inr x) \<Rightarrow> (case f x of (es', r) \<Rightarrow> (es @ es', r)))"

definition lift :: "failure + 'a \<Rightarrow> 'a io" where
  "lift r = ([], r)"

section \<open>config.py\<close>

type_synonym environ = "string \<Rightarrow> string option"

definition ENV_PREFIX :: string where
  "ENV_PREFIX = ''PIPELESS''"

text \<open>
  \<^verbatim>\<open>config[path]\<close>: a dictionary gives the value or raises KeyError; any other value
  of the model is not subscriptable by a string and raises TypeError.
\<close>

fun getitem :: "pyval \<Rightarrow> string \<Rightarrow> failure + pyval" where
  "getitem (PDict kvs) k =
     (case map_of kvs k of None \<Rightarrow> Inl (Raised KeyError) | Some v \<Rightarrow> Inr v)"
| "getitem _ k = Inl (Raised TypeError)"

text \<open>The builtins \<^verbatim>\<open>str\<close> and \<^verbatim>\<open>bool\<close> on a string of the environment.\<close>

definition py_str :: "string \<Rightarrow> failure + pyval" where
  "py_str s = Inr (PStr s)"

definition py_bool :: "string \<Rightarrow> failure + pyval" where
  "py_bool s = Inr (PBool (s \<noteq> []))"

text \<open>
  \<^verbatim>\<open>prioritized_config\<close>. The environment is read first; only when the variable is
  unset is the document looked up, and only a KeyError of that lookup is caught.
\<close>

definition prioritized_config ::
  "environ \<Rightarrow> pyval \<Rightarrow> string \<Rightarrow> string \<Rightarrow> (string \<Rightarrow> failure + pyval) \<Rightarrow> bool \<Rightarrow> pyval io"
where
  "prioritized_config env config path env_var_name convert_to required =
     (case env env_var_name of
        None \<Rightarrow>
          (case getitem config path of
             Inr v \<Rightarrow> ([], Inr v)
           | Inl (Raised KeyError) \<Rightarrow>
               if required then ([Log ERROR], Inl (SysExit 1)) else ([], Inr PNone)
           | Inl e \<Rightarrow> ([], Inl e))
      | Some v \<Rightarrow> ([], convert_to v))"

record address =
  a_host :: pyval
  a_port :: pyval

definition Address_init :: "environ \<Rightarrow> pyval \<Rightarrow> string \<Rightarrow> address io" where
  "Address_init env address_dict env_prefix =
     bnd (prioritized_config env address_dict ''host'' (env_prefix @ ''_HOST'') py_str True) (\<lambda>h.
     bnd (prioritized_config env address_dict ''port'' (env_prefix @ ''_PORT'') py_str True) (\<lambda>p.
     ret \<lparr>a_host = h, a_port = p\<rparr>))"

text \<open>\<^verbatim>\<open>s.split(':')\<close>: every separator cuts; the result is never empty.\<close>

fun py_split :: "char \<Rightarrow> string \<Rightarrow> string list" where
  "py_split sep [] = [[]]"
| "py_split sep (c # cs) =
     (let ps = py_split sep cs
      in if c = sep then [] # ps else (c # hd ps) # tl ps)"

record video =
  v_enable :: pyval
  v_uri :: pyval
  v_protocol :: string
  v_location :: string

text \<open>
  The second half of \<^verbatim>\<open>Video.__init__\<close>: protocol and location from the resolved
  URI. A value without \<^verbatim>\<open>split\<close> (AttributeError) and a split with fewer than two
  pieces (IndexError) both end in the bare \<^verbatim>\<open>except\<close>, which logs and exits.
\<close>

definition uri_parts :: "pyval \<Rightarrow> (string \<times> string) io" where
  "uri_parts u =
     (if u = PStr ''screen'' then ret (''screen'', ''screen'')
      else
        (case u of
           PStr s \<Rightarrow>
             (let uri_split = py_split CHR '':'' s
              in if length uri_split < 2 then ([Log ERROR], Inl (SysExit 1))
                 else ret (uri_split ! 0, uri_split ! 1))
         | _ \<Rightarrow> ([Log ERROR], Inl (SysExit 1))))"

definition Video_init :: "environ \<Rightarrow> pyval \<Rightarrow> string \<Rightarrow> video io" where
  "Video_init env video_dict env_prefix =
     bnd (prioritized_config env video_dict ''enable'' (env_prefix @ ''_ENABLE'') py_bool True) (\<lambda>en.
     bnd (prioritized_config env video_dict ''uri'' (env_prefix @ ''_URI'') py_str False) (\<lambda>u.
     bnd (uri_parts u) (\<lambda>(pr, loc).
     ret \<lparr>v_enable = en, v_uri = u, v_protocol = pr, v_location = loc\<rparr>)))"

record input_cfg =
  i_video :: video
  i_address :: address

definition Input_init :: "environ \<Rightarrow> pyval \<Rightarrow> input_cfg io" where
  "Input_init env input_dict =
     bnd (lift (getitem input_dict ''video'')) (\<lambda>vd.
     bnd (Video_init env vd (ENV_PREFIX @ ''_INPUT_VIDEO'')) (\<lambda>v.
     bnd (lift (getitem input_dict ''address'')) (\<lambda>ad.
     bnd (Address_init env ad (ENV_PREFIX @ ''_INPUT_ADDRESS'')) (\<lambda>a.
     ret \<lparr>i_video = v, i_address = a\<rparr>))))"

record output_cfg =
  o_video :: video
  o_address :: address

definition Output_init :: "environ \<Rightarrow> pyval \<Rightarrow> output_cfg io" where
  "Output_init env output_dict =
     bnd (lift (getitem output_dict ''video'')) (\<lambda>vd.
     bnd (Video_init env vd (ENV_PREFIX @ ''_OUTPUT_VIDEO'')) (\<lambda>v.
     bnd (lift (getitem output_dict ''address'')) (\<lambda>ad.
     bnd (Address_init env ad (ENV_PREFIX @ ''_OUTPUT_ADDRESS'')) (\<lambda>a.
     ret \<lparr>o_video = v, o_address = a\<rparr>))))"

record config =
  c_log_level :: pyval
  c_input :: input_cfg
  c_output :: output_cfg
  c_n_workers :: pyval

text \<open>
  \<^verbatim>\<open>Config.__init__\<close>. The builtin \<^verbatim>\<open>int\<close> on a string is the parameter
  \<open>to_int\<close>.
\<close>

definition Config_init :: "(string \<Rightarrow> failure + pyval) \<Rightarrow> environ \<Rightarrow> pyval \<Rightarrow> config io" where
  "Config_init to_int env cfg =
     bnd (prioritized_config env cfg ''log_level'' (ENV_PREFIX @ ''_LOG_LEVEL'') py_str True) (\<lambda>ll.
     bnd (if ll \<noteq> PStr ''INFO'' \<and> ll \<noteq> PStr ''DEBUG'' \<and> ll \<noteq> PStr ''WARN''
          then ([Log WARNING], Inr (PStr ''DEBUG'')) else ret ll) (\<lambda>ll'.
     bnd (lift (getitem cfg ''input'')) (\<lambda>idict.
     bnd (Input_init env idict) (\<lambda>inp.
     bnd (lift (getitem cfg ''output'')) (\<lambda>odict.
     bnd (Output_init env odict) (\<lambda>outp.
     bnd (prioritized_config env cfg ''n_workers'' (ENV_PREFIX @ ''_N_WORKERS'') to_int True) (\<lambda>n.
     ret \<lparr>c_log_level = ll', c_input = inp, c_output = outp, c_n_workers = n\<rparr>)))))))"

definition get_input :: "config \<Rightarrow> input_cfg" where
  "get_input c = c_input c"

definition get_output :: "config \<Rightarrow> output_cfg" where
  "get_output c = c_output c"

definition get_log_level :: "config \<Rightarrow> pyval" where
  "get_log_level c = c_log_level c"

definition get_n_workers :: "config \<Rightarrow> pyval" where
  "get_n_workers c = c_n_workers c"

text \<open>
  Modelled from the spec: the metaclass \<^verbatim>\<open>Singleton\<close> of
  \<^verbatim>\<open>pipeless_ai.lib.singleton\<close> is not among the sources. The specification calls
  the configuration a process-wide singleton, constructed once, for which a later
  attempt to construct it yields the same resolved values. \<open>inst\<close> is the stored
  instance: a call with an instance present returns it and runs no constructor; a
  call without one runs \<^verbatim>\<open>Config.__init__\<close> and stores the object it built.
\<close>

definition Config_call ::
  "(string \<Rightarrow> failure + pyval) \<Rightarrow> config option \<Rightarrow> environ \<Rightarrow> pyval \<Rightarrow> config option \<times> config io"
where
  "Config_call to_int inst env arg =
     (case inst of
        Some c \<Rightarrow> (inst, ret c)
      | None \<Rightarrow>
          (case Config_init to_int env arg of
             (es, Inr c) \<Rightarrow> (Some c, (es, Inr c))
           | (es, Inl f) \<Rightarrow> (None, (es, Inl f))))"

text \<open>
  The operations the class offers a caller: constructing it (another time) and the four
  getters. \<open>config_step\<close> gives the stored instance after one operation.
\<close>

datatype config_op =
    Construct environ pyval
  | GetInput
  | GetOutput
  | GetLogLevel
  | GetNWorkers

fun config_step :: "(string \<Rightarrow> failure + pyval) \<Rightarrow> config_op \<Rightarrow> config option \<Rightarrow> config option" where
  "config_step to_int (Construct env arg) inst = fst (Config_call to_int inst env arg)"
| "config_step to_int GetInput inst = inst"
| "config_step to_int GetOutput inst = inst"
| "config_step to_int GetLogLevel inst = inst"
| "config_step to_int GetNWorkers inst = inst"

section \<open>input.py\<close>

datatype flow_return = FlowOK | FlowERROR

datatype probe_return = ProbeOK | ProbeREMOVE

record caps =
  caps_width :: int
  caps_height :: int
  caps_string :: string

text \<open>\<open>b_map\<close> is the outcome of \<^verbatim>\<open>buffer.map(READ)\<close>: the data, or \<open>None\<close> when it fails.\<close>

record buffer =
  b_dts :: int
  b_pts :: int
  b_duration :: int
  b_map :: "nat list option"

record sample =
  s_caps :: caps
  s_buffer :: "buffer option"

text \<open>
  \<^verbatim>\<open>on_new_sample\<close>. \<open>pulled\<close> is what \<^verbatim>\<open>sink.pull_sample()\<close> gives. The numpy
  constructor \<^verbatim>\<open>np.ndarray(shape=(height, width, 3), dtype=uint8, buffer=data)\<close> is
  the parameter \<open>ndarray\<close>, which may raise.
\<close>

definition on_new_sample ::
  "(int \<Rightarrow> int \<Rightarrow> nat list \<Rightarrow> failure + nat list) \<Rightarrow> sample option \<Rightarrow> flow_return io"
where
  "on_new_sample ndarray pulled =
     (case pulled of
        None \<Rightarrow> ([Log ERROR], Inr FlowERROR)
      | Some smp \<Rightarrow>
          bnd ([Log DEBUG], Inr ()) (\<lambda>_.
          (case s_buffer smp of
             None \<Rightarrow> ([Log ERROR], Inr FlowERROR)
           | Some buf \<Rightarrow>
               (case b_map buf of
                  None \<Rightarrow> ([Log ERROR], Inr FlowERROR)
                | Some info \<Rightarrow>
                    (let width = caps_width (s_caps smp);
                         height = caps_height (s_caps smp)
                     in bnd (lift (ndarray height width info)) (\<lambda>ndframe.
                        ([Send InputPushSocket
                            (Serialized (RgbImageMsg width height ndframe
                               (b_dts buf) (b_pts buf) (b_duration buf))),
                          Unmap],
                         Inr FlowOK)))))))"

datatype bus_message =
    MsgEOS
  | MsgERROR
  | MsgWARNING
  | MsgSTATE_CHANGED
  | MsgTAG string
  | MsgOTHER

text \<open>
  \<^verbatim>\<open>range(n)\<close> as a number of iterations: an integer (a boolean is one) or TypeError.
\<close>

fun py_range :: "pyval \<Rightarrow> failure + nat" where
  "py_range (PInt n) = Inr (nat n)"
| "py_range (PBool b) = Inr (if b then 1 else 0)"
| "py_range _ = Inl (Raised TypeError)"

text \<open>The loop \<^verbatim>\<open>for _ in range(config.get_n_workers())\<close> of the EOS branch.\<close>

fun notify_workers :: "nat \<Rightarrow> serialized \<Rightarrow> effect list" where
  "notify_workers 0 m_msg = []"
| "notify_workers (Suc k) m_msg =
     [Log INFO, EnsureSend InputPushSocket m_msg] @ notify_workers k m_msg"

text \<open>
  \<^verbatim>\<open>on_bus_message\<close>. \<open>cfg\<close> is the object \<^verbatim>\<open>Config(None)\<close> returns, the instance
  the singleton holds.
\<close>

definition on_bus_message :: "config \<Rightarrow> bus_message \<Rightarrow> bool io" where
  "on_bus_message cfg m =
     (case m of
        MsgEOS \<Rightarrow>
          (let m_msg = Serialized EndOfStreamMsg
           in bnd ([Log INFO, Log DEBUG, Send InputOutputSocket m_msg], Inr ()) (\<lambda>_.
              bnd (lift (py_range (get_n_workers cfg))) (\<lambda>k.
              (notify_workers k m_msg, Inr True))))
      | MsgERROR \<Rightarrow> ([Log ERROR, Log ERROR, LoopQuit], Inr True)
      | MsgWARNING \<Rightarrow> ([Log WARNING, Log WARNING], Inr True)
      | MsgSTATE_CHANGED \<Rightarrow> ([Log DEBUG], Inr True)
      | MsgTAG tags \<Rightarrow>
          ([Log INFO, Send InputOutputSocket (Serialized (StreamTagsMsg tags))], Inr True)
      | MsgOTHER \<Rightarrow> ([], Inr True))"

text \<open>
  A pad of uridecodebin: its name, the caps \<^verbatim>\<open>get_current_caps()\<close> returns (as their
  string, \<open>None\<close> before negotiation), whether the engine accepts a link of this pad to
  the sink pad of videoconvert, and how many probes with \<^verbatim>\<open>on_pad_upstream_event\<close>
  are attached.
\<close>

record pad =
  pad_name :: string
  current_caps :: "string option"
  link_ok :: bool
  probes :: nat

definition on_pad_upstream_event :: "pad \<Rightarrow> effect list \<times> probe_return" where
  "on_pad_upstream_event p =
     (case current_caps p of
        Some c \<Rightarrow>
          ([Log DEBUG, Send InputOutputSocket (Serialized (StreamCapsMsg c))], ProbeREMOVE)
      | None \<Rightarrow> ([], ProbeOK))"

text \<open>
  The callbacks of the pad-added signal work on the pair of
  \<^verbatim>\<open>videoconvert_sink_pad.is_linked()\<close> and the new pad.
\<close>

type_synonym pad_state = "bool \<times> pad"

definition handle_caps_change :: "pad_state \<Rightarrow> effect list \<times> pad_state" where
  "handle_caps_change st =
     (case st of (linked, p) \<Rightarrow> ([], (linked, p\<lparr>probes := Suc (probes p)\<rparr>)))"

text \<open>
  \<^verbatim>\<open>pad_added_callback\<close>. The value of \<^verbatim>\<open>pad.link\<close> is dropped; afterwards the sink
  pad is linked when the engine accepted the link.
\<close>

definition pad_added_callback :: "pad_state \<Rightarrow> effect list \<times> pad_state" where
  "pad_added_callback st =
     (case st of (linked, p) \<Rightarrow>
        if \<not> linked then ([Log INFO, PadLink (pad_name p)], (link_ok p, p))
        else ([Log WARNING], (linked, p)))"

fun on_pad_added ::
  "(pad_state \<Rightarrow> effect list \<times> pad_state) list \<Rightarrow> pad_state \<Rightarrow> effect list \<times> pad_state"
where
  "on_pad_added [] st = ([], st)"
| "on_pad_added (callback # callbacks) st =
     (case callback st of (es, st') \<Rightarrow>
        (case on_pad_added callbacks st' of (es', st'') \<Rightarrow> (es @ es', st'')))"

text \<open>
  The handler \<^verbatim>\<open>input()\<close> connects to pad-added, run for the pads uridecodebin
  creates, in order. It returns the effects, whether the sink pad is linked at the end,
  and the pads with their probes.
\<close>

fun pad_added_signal :: "bool \<Rightarrow> pad list \<Rightarrow> effect list \<times> bool \<times> pad list" where
  "pad_added_signal linked [] = ([], linked, [])"
| "pad_added_signal linked (p # ps) =
     (case on_pad_added [pad_added_callback, handle_caps_change] (linked, p) of
        (es, (linked', p')) \<Rightarrow>
          (case pad_added_signal linked' ps of
             (es', linked'', ps') \<Rightarrow> (es @ es', linked'', p' # ps')))"

text \<open>
  An upstream event on a pad runs every attached probe; a probe that returns REMOVE is
  detached, one that returns OK stays. \<open>fire_probes k p\<close> runs \<open>k\<close> probes and counts
  those that stay.
\<close>

fun fire_probes :: "nat \<Rightarrow> pad \<Rightarrow> effect list \<times> nat" where
  "fire_probes 0 p = ([], 0)"
| "fire_probes (Suc k) p =
     (case on_pad_upstream_event p of (es, r) \<Rightarrow>
        (case fire_probes k p of (es', kept) \<Rightarrow>
           (es @ es', if r = ProbeREMOVE then kept else Suc kept)))"

definition upstream_event :: "pad \<Rightarrow> effect list \<times> pad" where
  "upstream_event p =
     (case fire_probes (probes p) p of (es, kept) \<Rightarrow> (es, p\<lparr>probes := kept\<rparr>))"

text \<open>
  A pad's life as the caps it has at each of its upstream events, in order.
\<close>

fun pad_events :: "pad \<Rightarrow> string option list \<Rightarrow> effect list \<times> pad" where
  "pad_events p [] = ([], p)"
| "pad_events p (c # cs) =
     (case upstream_event (p\<lparr>current_caps := c\<rparr>) of (es, p') \<Rightarrow>
        (case pad_events p' cs of (es', p'') \<Rightarrow> (es @ es', p'')))"

text \<open>
  The three callbacks as the engine invokes them, and the effects of a sequence of
  invocations. The callbacks keep no state of their own between invocations.
\<close>

datatype invocation =
    NewSample "sample option"
  | BusMessage bus_message
  | PadProbe pad

definition invoke ::
  "(int \<Rightarrow> int \<Rightarrow> nat list \<Rightarrow> failure + nat list) \<Rightarrow> config \<Rightarrow> invocation \<Rightarrow> effect list"
where
  "invoke ndarray cfg i =
     (case i of
        NewSample pulled \<Rightarrow> fst (on_new_sample ndarray pulled)
      | BusMessage m \<Rightarrow> fst (on_bus_message cfg m)
      | PadProbe p \<Rightarrow> fst (on_pad_upstream_event p))"

definition run ::
  "(int \<Rightarrow> int \<Rightarrow> nat list \<Rightarrow> failure + nat list) \<Rightarrow> config \<Rightarrow> invocation list \<Rightarrow> effect list"
where
  "run ndarray cfg is = concat (map (invoke ndarray cfg) is)"

section \<open>Reading a trace of effects\<close>

fun send_target :: "effect \<Rightarrow> socket option" where
  "send_target (Send s m) = Some s"
| "send_target (EnsureSend s m) = Some s"
| "send_target _ = None"

fun payload :: "effect \<Rightarrow> serialized option" where
  "payload (Send s m) = Some m"
| "payload (EnsureSend s m) = Some m"
| "payload _ = None"

text \<open>The send effects of a trace, and those on one socket.\<close>

definition sends :: "effect list \<Rightarrow> effect list" where
  "sends es = filter (\<lambda>e. send_target e \<noteq> None) es"

definition sends_on :: "socket \<Rightarrow> effect list \<Rightarrow> effect list" where
  "sends_on s es = filter (\<lambda>e. send_target e = Some s) es"

definition sent_on :: "socket \<Rightarrow> effect list \<Rightarrow> serialized list" where
  "sent_on s es = map (\<lambda>e. the (payload e)) (sends_on s es)"

text \<open>
  A socket's messages end the stream with \<open>k\<close> EndOfStream messages: the last \<open>k\<close> are
  EndOfStream and none before them is.
\<close>

definition ends_stream :: "nat \<Rightarrow> serialized list \<Rightarrow> bool" where
  "ends_stream k ms =
     (k \<le> length ms
      \<and> drop (length ms - k) ms = replicate k (Serialized EndOfStreamMsg)
      \<and> Serialized EndOfStreamMsg \<notin> set (take (length ms - k) ms))"

text \<open>
  The three faults of the frame capture: no sample, a sample without a buffer, a buffer
  whose mapping fails.
\<close>

definition unavailable :: "sample option \<Rightarrow> bool" where
  "unavailable pulled =
     (case pulled of
        None \<Rightarrow> True
      | Some smp \<Rightarrow>
          (case s_buffer smp of
             None \<Rightarrow> True
           | Some buf \<Rightarrow> b_map buf = None))"

text \<open>A send of a Caps message, and the pads a trace tries to link, in order.\<close>

fun is_caps_send :: "effect \<Rightarrow> bool" where
  "is_caps_send (Send s (Serialized (StreamCapsMsg c))) = True"
| "is_caps_send (EnsureSend s (Serialized (StreamCapsMsg c))) = True"
| "is_caps_send _ = False"

definition link_attempts :: "effect list \<Rightarrow> string list" where
  "link_attempts es = concat (map (\<lambda>e. case e of PadLink n \<Rightarrow> [n] | _ \<Rightarrow> []) es)"

text \<open>A document and the configuration \<^verbatim>\<open>Config.__init__\<close> builds from it.\<close>

definition example_document :: pyval where
  "example_document =
     PDict [
       (''log_level'', PStr ''INFO''),
       (''input'', PDict [
          (''video'', PDict [(''enable'', PBool True), (''uri'', PStr ''file:///a/b'')]),
          (''address'', PDict [(''host'', PStr ''localhost''), (''port'', PInt 1234)])]),
       (''output'', PDict [
          (''video'', PDict [(''enable'', PBool True), (''uri'', PStr ''screen'')]),
          (''address'', PDict [(''host'', PStr ''localhost''), (''port'', PInt 1237)])]),
       (''n_workers'', PInt 2)]"

definition example_config :: config where
  "example_config =
     \<lparr>c_log_level = PStr ''INFO'',
      c_input = \<lparr>i_video = \<lparr>v_enable = PBool True, v_uri = PStr ''file:///a/b'',
                              v_protocol = ''file'', v_location = ''///a/b''\<rparr>,
                 i_address = \<lparr>a_host = PStr ''localhost'', a_port = PInt 1234\<rparr>\<rparr>,
      c_output = \<lparr>o_video = \<lparr>v_enable = PBool True, v_uri = PStr ''screen'',
                               v_protocol = ''screen'', v_location = ''screen''\<rparr>,
                  o_address = \<lparr>a_host = PStr ''localhost'', a_port = PInt 1237\<rparr>\<rparr>,
      c_n_workers = PInt 2\<rparr>"

section \<open>Properties\<close>

lemma py_split_nonempty: "py_split sep s \<noteq> []"
  by (induction s) (auto simp: Let_def)

lemma example_config_built:
  "Config_init to_int Map.empty example_document = ([], Inr example_config)"
  by (simp add: Config_init_def Input_init_def Output_init_def Video_init_def Address_init_def
      prioritized_config_def uri_parts_def bnd_def ret_def lift_def ENV_PREFIX_def
      example_document_def example_config_def py_str_def py_bool_def Let_def)

lemma sends_notify_workers:
  "sends (notify_workers k m) = replicate k (EnsureSend InputPushSocket m)"
  by (induction k) (simp_all add: sends_def)

lemma sends_on_push_notify_workers:
  "sends_on InputPushSocket (notify_workers k m) = replicate k (EnsureSend InputPushSocket m)"
  by (induction k) (simp_all add: sends_on_def)

lemma sends_on_output_notify_workers:
  "sends_on InputOutputSocket (notify_workers k m) = []"
  by (induction k) (simp_all add: sends_on_def)

lemma on_bus_message_EOS:
  "c_n_workers cfg = PInt n \<Longrightarrow>
   on_bus_message cfg MsgEOS =
     ([Log INFO, Log DEBUG, Send InputOutputSocket (Serialized EndOfStreamMsg)]
        @ notify_workers (nat n) (Serialized EndOfStreamMsg), Inr True)"
  by (simp add: on_bus_message_def bnd_def lift_def get_n_workers_def Let_def)

subsection \<open>The EndOfStream branch of the bus handler\<close>

text \<open>
  C1. Handling an EndOfStream bus event sends exactly one serialized EndOfStream message
  on the socket to the output component and then an EndOfStream message on the socket to
  the workers once per configured worker; the send to the output comes before every send
  to the workers. The configured number of workers is an integer \<open>n\<close>, not negative.
\<close>

theorem eos_one_to_output_then_n_to_workers:
  assumes "c_n_workers cfg = PInt n" and "0 \<le> n"
  shows "sends (fst (on_bus_message cfg MsgEOS)) =
           Send InputOutputSocket (Serialized EndOfStreamMsg)
             # replicate (nat n) (EnsureSend InputPushSocket (Serialized EndOfStreamMsg))
         \<and> sent_on InputOutputSocket (fst (on_bus_message cfg MsgEOS)) = [Serialized EndOfStreamMsg]
         \<and> sent_on InputPushSocket (fst (on_bus_message cfg MsgEOS)) =
             replicate (nat n) (Serialized EndOfStreamMsg)
         \<and> int (length (sent_on InputPushSocket (fst (on_bus_message cfg MsgEOS)))) = n
         \<and> snd (on_bus_message cfg MsgEOS) = Inr True"
proof -
  let ?m = "Serialized EndOfStreamMsg"
  have tr: "fst (on_bus_message cfg MsgEOS) =
      [Log INFO, Log DEBUG, Send InputOutputSocket ?m] @ notify_workers (nat n) ?m"
    and rv: "snd (on_bus_message cfg MsgEOS) = Inr True"
    using on_bus_message_EOS [OF assms(1)] by simp_all
  have all: "sends (fst (on_bus_message cfg MsgEOS)) =
      Send InputOutputSocket ?m # replicate (nat n) (EnsureSend InputPushSocket ?m)"
    unfolding tr using sends_notify_workers [of "nat n" ?m] by (simp add: sends_def)
  have out: "sent_on InputOutputSocket (fst (on_bus_message cfg MsgEOS)) = [?m]"
    unfolding tr sent_on_def using sends_on_output_notify_workers [of "nat n" ?m]
    by (simp add: sends_on_def)
  have wrk: "sent_on InputPushSocket (fst (on_bus_message cfg MsgEOS)) = replicate (nat n) ?m"
    unfolding tr sent_on_def using sends_on_push_notify_workers [of "nat n" ?m]
    by (simp add: sends_on_def)
  have cnt: "int (length (sent_on InputPushSocket (fst (on_bus_message cfg MsgEOS)))) = n"
    unfolding wrk using assms(2) by simp
  from all out wrk cnt rv show ?thesis by blast
qed

theorem eos_one_to_output_then_n_to_workers_witness:
  "sends (fst (on_bus_message example_config MsgEOS)) =
     [Send InputOutputSocket (Serialized EndOfStreamMsg),
      EnsureSend InputPushSocket (Serialized EndOfStreamMsg),
      EnsureSend InputPushSocket (Serialized EndOfStreamMsg)]
   \<and> length (sent_on InputPushSocket (fst (on_bus_message example_config MsgEOS))) = 2"
proof -
  have a: "c_n_workers example_config = PInt 2" by (simp add: example_config_def)
  have b: "(0::int) \<le> 2" by simp
  from eos_one_to_output_then_n_to_workers [OF a b] show ?thesis
    by (simp add: numeral_2_eq_2)
qed


text \<open>
  C3, as stated, fails: among the sends of the EndOfStream branch there is one that is not
  an \<^verbatim>\<open>ensure_send\<close>, the \<^verbatim>\<open>send\<close> on the socket to the output component.
\<close>

theorem eos_output_send_is_plain_send:
  "\<not> (\<forall>e \<in> set (sends (fst (on_bus_message example_config MsgEOS))).
        \<exists>s m. e = EnsureSend s m)"
proof -
  have "c_n_workers example_config = PInt 2" by (simp add: example_config_def)
  from on_bus_message_EOS [OF this]
  have "Send InputOutputSocket (Serialized EndOfStreamMsg)
          \<in> set (sends (fst (on_bus_message example_config MsgEOS)))"
    by (simp add: sends_def)
  then show ?thesis by blast
qed

text \<open>
  C3, amended. When an EndOfStream bus event is handled, each of the sends to the worker
  distribution socket, one per configured worker, is an \<^verbatim>\<open>ensure_send\<close>; the single
  send to the output component's socket is that socket's \<^verbatim>\<open>send\<close>.
\<close>

theorem eos_worker_sends_ensure_output_send_plain:
  assumes "c_n_workers cfg = PInt n"
  shows "sends_on InputPushSocket (fst (on_bus_message cfg MsgEOS)) =
           replicate (nat n) (EnsureSend InputPushSocket (Serialized EndOfStreamMsg))
         \<and> sends_on InputOutputSocket (fst (on_bus_message cfg MsgEOS)) =
             [Send InputOutputSocket (Serialized EndOfStreamMsg)]"
proof -
  let ?m = "Serialized EndOfStreamMsg"
  have tr: "fst (on_bus_message cfg MsgEOS) =
      [Log INFO, Log DEBUG, Send InputOutputSocket ?m] @ notify_workers (nat n) ?m"
    using on_bus_message_EOS [OF assms] by simp
  have "sends_on InputPushSocket ([Log INFO, Log DEBUG, Send InputOutputSocket ?m]
          @ notify_workers (nat n) ?m) = sends_on InputPushSocket (notify_workers (nat n) ?m)"
    by (simp add: sends_on_def)
  moreover have "sends_on InputOutputSocket ([Log INFO, Log DEBUG, Send InputOutputSocket ?m]
          @ notify_workers (nat n) ?m) =
        Send InputOutputSocket ?m # sends_on InputOutputSocket (notify_workers (nat n) ?m)"
    by (simp add: sends_on_def)
  ultimately show ?thesis
    unfolding tr by (simp add: sends_on_push_notify_workers sends_on_output_notify_workers)
qed

theorem eos_worker_sends_ensure_output_send_plain_witness:
  "sends_on InputPushSocket (fst (on_bus_message example_config MsgEOS)) =
     [EnsureSend InputPushSocket (Serialized EndOfStreamMsg),
      EnsureSend InputPushSocket (Serialized EndOfStreamMsg)]
   \<and> sends_on InputOutputSocket (fst (on_bus_message example_config MsgEOS)) =
       [Send InputOutputSocket (Serialized EndOfStreamMsg)]"
proof -
  have a: "c_n_workers example_config = PInt 2" by (simp add: example_config_def)
  from eos_worker_sends_ensure_output_send_plain [OF a] show ?thesis
    by (simp add: numeral_2_eq_2)
qed

subsection \<open>The configuration resolver\<close>

text \<open>
  C6. When the environment variable of a field is set, the resolved value is the
  environment value passed through the field's convert function, whatever the
  configuration document is (a dictionary with or without the field, or no dictionary at
  all) and whether the field is required; the call logs nothing and has no other effect.
\<close>

theorem env_value_wins:
  assumes "env env_var_name = Some v"
  shows "prioritized_config env config path env_var_name convert_to required = ([], convert_to v)"
  using assms by (simp add: prioritized_config_def)

theorem env_value_wins_witness:
  "prioritized_config [''PIPELESS_LOG_LEVEL'' \<mapsto> ''WARN''] example_document ''log_level''
      ''PIPELESS_LOG_LEVEL'' py_str True = ([], Inr (PStr ''WARN''))
   \<and> prioritized_config [''PIPELESS_LOG_LEVEL'' \<mapsto> ''WARN''] PNone ''log_level''
      ''PIPELESS_LOG_LEVEL'' py_str True = ([], Inr (PStr ''WARN''))"
proof -
  let ?env = "[''PIPELESS_LOG_LEVEL'' \<mapsto> ''WARN'']"
  have e: "?env ''PIPELESS_LOG_LEVEL'' = Some ''WARN''"
    by simp
  show ?thesis
    using env_value_wins [where env = ?env and env_var_name = "''PIPELESS_LOG_LEVEL''"
            and v = "''WARN''" and config = example_document and path = "''log_level''"
            and convert_to = py_str and required = True, OF e]
          env_value_wins [where env = ?env and env_var_name = "''PIPELESS_LOG_LEVEL''"
            and v = "''WARN''" and config = PNone and path = "''log_level''"
            and convert_to = py_str and required = True, OF e]
    by (simp add: py_str_def)
qed

text \<open>
  C10. With the environment variable unset, a value found at the path in the document is
  returned as it is: the convert function is not applied to it.
\<close>

theorem document_value_not_converted:
  assumes "env env_var_name = None" and "getitem config path = Inr v"
  shows "prioritized_config env config path env_var_name convert_to required = ([], Inr v)"
  using assms by (simp add: prioritized_config_def)

theorem document_value_not_converted_witness:
  "prioritized_config Map.empty (PDict [(''n_workers'', PStr ''3'')]) ''n_workers''
      ''PIPELESS_N_WORKERS'' (\<lambda>s. Inr (PInt 3)) True = ([], Inr (PStr ''3''))
   \<and> prioritized_config Map.empty (PDict [(''enable'', PStr ''yes'')]) ''enable''
      ''PIPELESS_INPUT_VIDEO_ENABLE'' py_bool True = ([], Inr (PStr ''yes''))"
proof -
  have e: "Map.empty ''PIPELESS_N_WORKERS'' = (None :: string option)"
          "Map.empty ''PIPELESS_INPUT_VIDEO_ENABLE'' = (None :: string option)" by simp_all
  have g: "getitem (PDict [(''n_workers'', PStr ''3'')]) ''n_workers'' = Inr (PStr ''3'')"
          "getitem (PDict [(''enable'', PStr ''yes'')]) ''enable'' = Inr (PStr ''yes'')"
    by simp_all
  show ?thesis
    using document_value_not_converted [OF e(1) g(1), where convert_to = "\<lambda>s. Inr (PInt 3)"
            and required = True]
          document_value_not_converted [OF e(2) g(2), where convert_to = py_bool
            and required = True]
    by simp
qed

subsection \<open>The frame capture callback\<close>

text \<open>
  C8. When the pulled sample is unavailable, or its buffer is absent, or mapping the
  buffer fails, the callback returns the flow status ERROR (it neither raises nor exits)
  and sends nothing on any socket.
\<close>

theorem capture_fault_is_flow_error:
  assumes "unavailable pulled"
  shows "snd (on_new_sample ndarray pulled) = Inr FlowERROR
         \<and> sends (fst (on_new_sample ndarray pulled)) = []"
  using assms
  by (auto simp: unavailable_def on_new_sample_def bnd_def sends_def
           split: option.splits)

theorem capture_fault_is_flow_error_witness:
  "on_new_sample (\<lambda>h w d. Inr d) None = ([Log ERROR], Inr FlowERROR)
   \<and> snd (on_new_sample (\<lambda>h w d. Inr d)
        (Some \<lparr>s_caps = \<lparr>caps_width = 2, caps_height = 1, caps_string = ''video/x-raw''\<rparr>,
               s_buffer = None\<rparr>)) = Inr FlowERROR
   \<and> sends (fst (on_new_sample (\<lambda>h w d. Inr d)
        (Some \<lparr>s_caps = \<lparr>caps_width = 2, caps_height = 1, caps_string = ''video/x-raw''\<rparr>,
               s_buffer = Some \<lparr>b_dts = 0, b_pts = 0, b_duration = 1, b_map = None\<rparr>\<rparr>))) = []"
proof -
  let ?nd = "\<lambda>(h::int) (w::int) (d::nat list). (Inr d :: failure + nat list)"
  let ?c = "\<lparr>caps_width = 2, caps_height = 1, caps_string = ''video/x-raw''\<rparr>"
  have u1: "unavailable None" by (simp add: unavailable_def)
  have u2: "unavailable (Some \<lparr>s_caps = ?c, s_buffer = None\<rparr>)" by (simp add: unavailable_def)
  have u3: "unavailable (Some \<lparr>s_caps = ?c,
      s_buffer = Some \<lparr>b_dts = 0, b_pts = 0, b_duration = 1, b_map = None\<rparr>\<rparr>)"
    by (simp add: unavailable_def)
  have "on_new_sample ?nd None = ([Log ERROR], Inr FlowERROR)"
    by (simp add: on_new_sample_def)
  then show ?thesis
    using capture_fault_is_flow_error [OF u2, where ndarray = ?nd]
      capture_fault_is_flow_error [OF u3, where ndarray = ?nd]
      capture_fault_is_flow_error [OF u1, where ndarray = ?nd]
    by simp
qed

subsection \<open>EndOfStream among the other messages\<close>

lemma sent_on_append: "sent_on s (a @ b) = sent_on s a @ sent_on s b"
  by (simp add: sent_on_def sends_on_def)

lemma run_append: "run nd cfg (xs @ ys) = run nd cfg xs @ run nd cfg ys"
  by (simp add: run_def)

lemma sent_on_notify_workers:
  "sent_on s (notify_workers k m) = (if s = InputPushSocket then replicate k m else [])"
  by (induction k) (auto simp: sent_on_def sends_on_def)

lemma on_new_sample_no_eos:
  "Serialized EndOfStreamMsg \<notin> set (sent_on s (fst (on_new_sample nd pulled)))"
  by (auto simp: on_new_sample_def bnd_def lift_def sent_on_def sends_on_def Let_def
           split: option.splits sum.splits prod.splits)

lemma invoke_no_eos:
  assumes "i \<noteq> BusMessage MsgEOS"
  shows "Serialized EndOfStreamMsg \<notin> set (sent_on s (invoke nd cfg i))"
proof (cases i)
  case (NewSample pulled)
  then show ?thesis using on_new_sample_no_eos [of s nd pulled] by (simp add: invoke_def)
next
  case (BusMessage m)
  with assms have "m \<noteq> MsgEOS" by simp
  then show ?thesis using BusMessage
    by (cases m) (auto simp: invoke_def on_bus_message_def sent_on_def sends_on_def)
next
  case (PadProbe p)
  then show ?thesis
    by (auto simp: invoke_def on_pad_upstream_event_def sent_on_def sends_on_def
             split: option.splits)
qed

lemma run_no_eos:
  "BusMessage MsgEOS \<notin> set pre \<Longrightarrow>
   Serialized EndOfStreamMsg \<notin> set (sent_on s (run nd cfg pre))"
proof (induction pre)
  case Nil
  then show ?case by (simp add: run_def sent_on_def sends_on_def)
next
  case (Cons i pre)
  then have "i \<noteq> BusMessage MsgEOS" and "BusMessage MsgEOS \<notin> set pre" by auto
  with Cons.IH invoke_no_eos [of i s nd cfg] show ?case
    using sent_on_append [of s "invoke nd cfg i" "run nd cfg pre"]
    by (simp add: run_def)
qed

lemma ends_stream_append:
  "Serialized EndOfStreamMsg \<notin> set pre \<Longrightarrow>
   ends_stream k (pre @ replicate k (Serialized EndOfStreamMsg))"
  by (simp add: ends_stream_def)

text \<open>
  C2, amended. For a sequence of callback invocations that ends with its only EndOfStream
  bus event, the messages on the output socket end with exactly one EndOfStream and those
  on the worker socket with one EndOfStream per configured worker, and no EndOfStream
  comes earlier on either. The callbacks keep no state: the effects of invocations that
  follow the EndOfStream event are appended unchanged.
\<close>

theorem eos_last_when_no_later_invocation:
  assumes "c_n_workers cfg = PInt n" and "BusMessage MsgEOS \<notin> set pre"
  shows "ends_stream 1 (sent_on InputOutputSocket (run nd cfg (pre @ [BusMessage MsgEOS])))
         \<and> ends_stream (nat n) (sent_on InputPushSocket (run nd cfg (pre @ [BusMessage MsgEOS])))
         \<and> run nd cfg (pre @ [BusMessage MsgEOS] @ post) =
             run nd cfg pre @ fst (on_bus_message cfg MsgEOS) @ run nd cfg post"
proof -
  let ?m = "Serialized EndOfStreamMsg"
  have one: "run nd cfg [BusMessage MsgEOS] = fst (on_bus_message cfg MsgEOS)"
    by (simp add: run_def invoke_def)
  have tr: "fst (on_bus_message cfg MsgEOS) =
      [Log INFO, Log DEBUG, Send InputOutputSocket ?m] @ notify_workers (nat n) ?m"
    using on_bus_message_EOS [OF assms(1)] by simp
  have out: "sent_on InputOutputSocket (fst (on_bus_message cfg MsgEOS)) = replicate 1 ?m"
    unfolding tr sent_on_append sent_on_notify_workers
    by (simp add: sent_on_def sends_on_def)
  have wrk: "sent_on InputPushSocket (fst (on_bus_message cfg MsgEOS)) = replicate (nat n) ?m"
    unfolding tr sent_on_append sent_on_notify_workers
    by (simp add: sent_on_def sends_on_def)
  have a: "ends_stream 1 (sent_on InputOutputSocket (run nd cfg (pre @ [BusMessage MsgEOS])))"
    unfolding run_append sent_on_append one out
    by (rule ends_stream_append) (rule run_no_eos [OF assms(2)])
  have b: "ends_stream (nat n) (sent_on InputPushSocket (run nd cfg (pre @ [BusMessage MsgEOS])))"
    unfolding run_append sent_on_append one wrk
    by (rule ends_stream_append) (rule run_no_eos [OF assms(2)])
  have c: "run nd cfg (pre @ [BusMessage MsgEOS] @ post) =
             run nd cfg pre @ fst (on_bus_message cfg MsgEOS) @ run nd cfg post"
    unfolding run_append one ..
  from a b c show ?thesis by blast
qed

theorem eos_last_when_no_later_invocation_witness:
  "ends_stream 1 (sent_on InputOutputSocket (run (\<lambda>h w d. Inr d) example_config
      [BusMessage (MsgTAG ''title''), BusMessage MsgEOS]))
   \<and> ends_stream 2 (sent_on InputPushSocket (run (\<lambda>h w d. Inr d) example_config
      [BusMessage (MsgTAG ''title''), BusMessage MsgEOS]))"
proof -
  have a: "c_n_workers example_config = PInt 2" by (simp add: example_config_def)
  have b: "BusMessage MsgEOS \<notin> set [BusMessage (MsgTAG ''title'')]" by simp
  note t = eos_last_when_no_later_invocation [OF a b, where nd = "\<lambda>h w d. Inr d"
      and post = "[]"]
  from t [THEN conjunct1] t [THEN conjunct2, THEN conjunct1]
  show ?thesis by simp
qed

text \<open>
  C2, as stated, fails: a Tag bus event handled after the EndOfStream event still sends
  its Tags message on the output socket, and a sample pulled after it still sends its
  frame on the worker socket.
\<close>

theorem messages_follow_eos:
  "\<not> ends_stream 1 (sent_on InputOutputSocket (run (\<lambda>h w d. Inr d) example_config
      [BusMessage MsgEOS, BusMessage (MsgTAG ''title'')]))
   \<and> sent_on InputOutputSocket (run (\<lambda>h w d. Inr d) example_config
      [BusMessage MsgEOS, BusMessage (MsgTAG ''title'')])
       = [Serialized EndOfStreamMsg, Serialized (StreamTagsMsg ''title'')]
   \<and> sent_on InputPushSocket (run (\<lambda>h w d. Inr d) example_config
      [BusMessage MsgEOS,
       NewSample (Some \<lparr>s_caps = \<lparr>caps_width = 1, caps_height = 1, caps_string = ''video/x-raw''\<rparr>,
                        s_buffer = Some \<lparr>b_dts = 0, b_pts = 0, b_duration = 1,
                                          b_map = Some [7, 8, 9]\<rparr>\<rparr>)])
       = [Serialized EndOfStreamMsg, Serialized EndOfStreamMsg,
          Serialized (RgbImageMsg 1 1 [7, 8, 9] 0 0 1)]"
proof -
  have a: "c_n_workers example_config = PInt 2" by (simp add: example_config_def)
  have tr: "fst (on_bus_message example_config MsgEOS) =
      [Log INFO, Log DEBUG, Send InputOutputSocket (Serialized EndOfStreamMsg),
       Log INFO, EnsureSend InputPushSocket (Serialized EndOfStreamMsg),
       Log INFO, EnsureSend InputPushSocket (Serialized EndOfStreamMsg)]"
    using on_bus_message_EOS [OF a] by (simp add: numeral_2_eq_2)
  have tg: "fst (on_bus_message example_config (MsgTAG ''title'')) =
      [Log INFO, Send InputOutputSocket (Serialized (StreamTagsMsg ''title''))]"
    by (simp add: on_bus_message_def)
  show ?thesis
    by (simp add: run_def invoke_def tr tg on_new_sample_def bnd_def lift_def
        sent_on_def sends_on_def ends_stream_def Let_def)
qed

subsection \<open>Protocol and location of a video URI\<close>

lemma py_split_hd: "hd (py_split sep s) = takeWhile (\<lambda>c. c \<noteq> sep) s"
  by (induction s) (auto simp: Let_def)

lemma py_split_length: "length (py_split sep s) = Suc (length (filter (\<lambda>c. c = sep) s))"
  by (induction s) (auto simp: Let_def py_split_nonempty)

lemma uri_parts_screen: "uri_parts (PStr ''screen'') = ([], Inr (''screen'', ''screen''))"
  by (simp add: uri_parts_def ret_def)

lemma uri_parts_no_colon:
  assumes "CHR '':'' \<notin> set s" and "s \<noteq> ''screen''"
  shows "uri_parts (PStr s) = ([Log ERROR], Inl (SysExit 1))"
proof -
  have "filter (\<lambda>c. c = CHR '':'') s = []" using assms(1) by (induction s) auto
  then have "length (py_split CHR '':'' s) = 1" by (simp add: py_split_length)
  then show ?thesis using assms(2) by (simp add: uri_parts_def Let_def)
qed

lemma uri_parts_file: "uri_parts (PStr ''file:///a/b'') = ([], Inr (''file'', ''///a/b''))"
  by (simp add: uri_parts_def ret_def Let_def)

text \<open>
  C4. The URI \<^verbatim>\<open>rtsp://host:8554/live\<close> has a second colon. The constructor splits at
  every colon and keeps the second piece only: the location is \<^verbatim>\<open>//host\<close>, not the
  whole remainder \<^verbatim>\<open>//host:8554/live\<close> after the first colon.
\<close>

theorem location_stops_at_second_colon:
  "Video_init Map.empty
     (PDict [(''enable'', PBool True), (''uri'', PStr ''rtsp://host:8554/live'')])
     ''PIPELESS_INPUT_VIDEO''
   = ([], Inr \<lparr>v_enable = PBool True, v_uri = PStr ''rtsp://host:8554/live'',
               v_protocol = ''rtsp'', v_location = ''//host''\<rparr>)"
  by (simp add: Video_init_def prioritized_config_def uri_parts_def bnd_def ret_def Let_def)

subsection \<open>The caps probe\<close>

lemma fire_probes_no_caps:
  "current_caps p = None \<Longrightarrow> fire_probes k p = ([], k)"
  by (induction k) (simp_all add: on_pad_upstream_event_def)

lemma fire_probes_caps:
  "current_caps p = Some c \<Longrightarrow>
   fire_probes k p =
     (concat (replicate k [Log DEBUG, Send InputOutputSocket (Serialized (StreamCapsMsg c))]), 0)"
  by (induction k) (simp_all add: on_pad_upstream_event_def)

lemma pad_events_detached:
  "probes p = 0 \<Longrightarrow> fst (pad_events p cs) = [] \<and> probes (snd (pad_events p cs)) = 0"
  by (induction cs arbitrary: p) (simp_all add: upstream_event_def split: prod.splits)

lemma pad_events_before_caps:
  "fst (pad_events p (replicate k None)) = []
   \<and> probes (snd (pad_events p (replicate k None))) = probes p"
  by (induction k arbitrary: p)
     (simp_all add: upstream_event_def fire_probes_no_caps split: prod.splits)

lemma pad_events_append:
  "pad_events p (cs @ ds) =
     (fst (pad_events p cs) @ fst (pad_events (snd (pad_events p cs)) ds),
      snd (pad_events (snd (pad_events p cs)) ds))"
  by (induction cs arbitrary: p) (simp_all split: prod.splits)

lemma pad_events_first_caps:
  assumes "probes p = Suc 0"
  shows "fst (pad_events p (Some c # rest)) =
           [Log DEBUG, Send InputOutputSocket (Serialized (StreamCapsMsg c))]
         \<and> probes (snd (pad_events p (Some c # rest))) = 0"
proof -
  let ?q = "p\<lparr>current_caps := Some c\<rparr>"
  have f: "fire_probes (probes ?q) ?q =
      ([Log DEBUG, Send InputOutputSocket (Serialized (StreamCapsMsg c))], 0)"
    using fire_probes_caps [of ?q c "Suc 0"] assms by simp
  then have u: "upstream_event ?q =
      ([Log DEBUG, Send InputOutputSocket (Serialized (StreamCapsMsg c))], ?q\<lparr>probes := 0\<rparr>)"
    by (simp add: upstream_event_def)
  have d: "fst (pad_events (?q\<lparr>probes := 0\<rparr>) rest) = []
      \<and> probes (snd (pad_events (?q\<lparr>probes := 0\<rparr>) rest)) = 0"
    by (rule pad_events_detached) simp
  show ?thesis using u d by (auto split: prod.splits)
qed

lemma pad_events_shape:
  assumes "probes p = Suc 0"
  shows "fst (pad_events p cs) =
           (case dropWhile (\<lambda>c. c = None) cs of
              [] \<Rightarrow> []
            | c # _ \<Rightarrow> [Log DEBUG, Send InputOutputSocket (Serialized (StreamCapsMsg (the c)))])"
  using assms
proof (induction cs arbitrary: p)
  case Nil
  then show ?case by simp
next
  case (Cons a cs)
  show ?case
  proof (cases a)
    case None
    let ?q = "p\<lparr>current_caps := None\<rparr>"
    have u: "upstream_event ?q = ([], ?q)"
      using fire_probes_no_caps [of ?q "probes ?q"] by (simp add: upstream_event_def)
    have "probes ?q = Suc 0" using Cons.prems by simp
    from Cons.IH [OF this] u None show ?thesis by (simp split: prod.splits)
  next
    case (Some c)
    with pad_events_first_caps [OF Cons.prems, of c cs] show ?thesis by simp
  qed
qed

text \<open>
  C5. A pad gets its probe from \<^verbatim>\<open>handle_caps_change\<close>, once. Whatever caps the pad
  has at its upstream events, at most one Caps message is sent. While the caps are
  \<open>None\<close> the probe has no effect and stays attached. At the first event with caps the
  probe logs, sends one Caps message with these caps and is detached; no later event of
  the pad has any effect.
\<close>

theorem caps_emitted_once_probe_one_shot:
  assumes "probes p0 = 0" and "handle_caps_change (linked, p0) = (es0, (linked', p))"
  shows "on_pad_upstream_event (q\<lparr>current_caps := None\<rparr>) = ([], ProbeOK)
         \<and> on_pad_upstream_event (q\<lparr>current_caps := Some c\<rparr>) =
             ([Log DEBUG, Send InputOutputSocket (Serialized (StreamCapsMsg c))], ProbeREMOVE)
         \<and> length (filter is_caps_send (fst (pad_events p cs))) \<le> 1
         \<and> fst (pad_events p (replicate k None)) = []
         \<and> probes (snd (pad_events p (replicate k None))) = 1
         \<and> fst (pad_events p (replicate k None @ Some c # rest)) =
             [Log DEBUG, Send InputOutputSocket (Serialized (StreamCapsMsg c))]
         \<and> probes (snd (pad_events p (replicate k None @ Some c # rest))) = 0"
proof -
  have p1: "probes p = Suc 0"
    using assms by (auto simp: handle_caps_change_def)
  have a: "length (filter is_caps_send (fst (pad_events p cs))) \<le> 1"
    unfolding pad_events_shape [OF p1] by (simp split: list.splits)
  have b: "fst (pad_events p (replicate k None)) = []
      \<and> probes (snd (pad_events p (replicate k None))) = 1"
    using pad_events_before_caps [of p k] p1 by simp
  let ?q = "snd (pad_events p (replicate k None))"
  have q1: "probes ?q = Suc 0" using b by simp
  have c: "fst (pad_events p (replicate k None @ Some c # rest)) =
             [Log DEBUG, Send InputOutputSocket (Serialized (StreamCapsMsg c))]
         \<and> probes (snd (pad_events p (replicate k None @ Some c # rest))) = 0"
    unfolding pad_events_append [of p "replicate k None" "Some c # rest"]
    using pad_events_first_caps [OF q1, of c rest] b by simp
  have d: "on_pad_upstream_event (q\<lparr>current_caps := None\<rparr>) = ([], ProbeOK)
      \<and> on_pad_upstream_event (q\<lparr>current_caps := Some c\<rparr>) =
          ([Log DEBUG, Send InputOutputSocket (Serialized (StreamCapsMsg c))], ProbeREMOVE)"
    by (simp add: on_pad_upstream_event_def)
  from a b c d show ?thesis by blast
qed

theorem caps_emitted_once_probe_one_shot_witness:
  "fst (pad_events \<lparr>pad_name = ''src_0'', current_caps = None, link_ok = True, probes = 1\<rparr>
          [None, None]) = []
   \<and> fst (pad_events \<lparr>pad_name = ''src_0'', current_caps = None, link_ok = True, probes = 1\<rparr>
          [None, None, Some ''video/x-raw'', Some ''video/x-raw'', None]) =
       [Log DEBUG, Send InputOutputSocket (Serialized (StreamCapsMsg ''video/x-raw''))]"
proof -
  let ?new = "\<lparr>pad_name = ''src_0'', current_caps = None, link_ok = True, probes = 0\<rparr>"
  let ?armed = "\<lparr>pad_name = ''src_0'', current_caps = None, link_ok = True, probes = 1\<rparr>"
  have a: "probes ?new = 0" by simp
  have b: "handle_caps_change (False, ?new) = ([], (False, ?armed))"
    by (simp add: handle_caps_change_def)
  show ?thesis
    using caps_emitted_once_probe_one_shot [OF a b, where k = "Suc (Suc 0)"
        and c = "''video/x-raw''" and rest = "[Some ''video/x-raw'', None]"]
    by simp
qed

subsection \<open>Linking the pads of uridecodebin\<close>

lemma pad_added_signal_linked:
  "pad_added_signal True ps =
     (replicate (length ps) (Log WARNING), True, map (\<lambda>p. p\<lparr>probes := Suc (probes p)\<rparr>) ps)"
  by (induction ps) (simp_all add: pad_added_callback_def handle_caps_change_def)

lemma pad_added_signal_step:
  "fst (pad_added_signal False (p # ps)) =
     [Log INFO, PadLink (pad_name p)] @ fst (pad_added_signal (link_ok p) ps)"
  by (simp add: pad_added_callback_def handle_caps_change_def split: prod.splits)

lemma link_attempts_warnings: "link_attempts (replicate k (Log WARNING)) = []"
  by (induction k) (simp_all add: link_attempts_def)

lemma link_attempts_unlinked:
  "link_attempts (fst (pad_added_signal False ps)) =
     map pad_name (takeWhile (\<lambda>p. \<not> link_ok p) ps @ take 1 (dropWhile (\<lambda>p. \<not> link_ok p) ps))"
proof (induction ps)
  case Nil
  then show ?case by (simp add: link_attempts_def)
next
  case (Cons p ps)
  show ?case
  proof (cases "link_ok p")
    case True
    then show ?thesis
      unfolding pad_added_signal_step
      using link_attempts_warnings [of "length ps"]
      by (simp add: pad_added_signal_linked link_attempts_def)
  next
    case False
    then show ?thesis
      unfolding pad_added_signal_step using Cons.IH
      by (simp add: link_attempts_def)
  qed
qed

text \<open>
  C7, as stated, fails: when the engine refuses the link of the first pad, the sink pad
  stays unlinked and the callback tries to link the second pad too. Two link attempts
  reach videoconvert, and the pad that ends up linked is not the first.
\<close>

theorem two_link_attempts_when_first_refused:
  "link_attempts (fst (pad_added_signal False
      [\<lparr>pad_name = ''src_0'', current_caps = None, link_ok = False, probes = 0\<rparr>,
       \<lparr>pad_name = ''src_1'', current_caps = None, link_ok = True, probes = 0\<rparr>]))
     = [''src_0'', ''src_1'']
   \<and> \<not> length (link_attempts (fst (pad_added_signal False
      [\<lparr>pad_name = ''src_0'', current_caps = None, link_ok = False, probes = 0\<rparr>,
       \<lparr>pad_name = ''src_1'', current_caps = None, link_ok = True, probes = 0\<rparr>]))) \<le> 1"
  by (simp add: pad_added_callback_def handle_caps_change_def link_attempts_def)

text \<open>
  C7, amended. The callback tries a link exactly when the sink pad of videoconvert is not
  linked yet. Starting unlinked, links are tried for the pads up to and including the
  first one whose link the engine accepts; once the sink pad is linked, every later pad is
  skipped with a warning and no link. When the link of the first pad is accepted, it is
  the only link attempt.
\<close>

theorem link_only_while_unlinked:
  "link_attempts (fst (pad_added_signal False ps)) =
     map pad_name (takeWhile (\<lambda>p. \<not> link_ok p) ps @ take 1 (dropWhile (\<lambda>p. \<not> link_ok p) ps))
   \<and> fst (pad_added_signal True ps) = replicate (length ps) (Log WARNING)
   \<and> fst (snd (pad_added_signal True ps)) = True
   \<and> (link_ok p \<longrightarrow>
        fst (pad_added_signal False (p # ps)) =
          [Log INFO, PadLink (pad_name p)] @ replicate (length ps) (Log WARNING))"
  using link_attempts_unlinked [of ps] pad_added_signal_step [of p ps]
  by (simp add: pad_added_signal_linked)

theorem link_only_while_unlinked_witness:
  "fst (pad_added_signal False
      [\<lparr>pad_name = ''src_0'', current_caps = None, link_ok = True, probes = 0\<rparr>,
       \<lparr>pad_name = ''src_1'', current_caps = None, link_ok = True, probes = 0\<rparr>])
     = [Log INFO, PadLink ''src_0'', Log WARNING]"
proof -
  let ?v = "\<lparr>pad_name = ''src_0'', current_caps = None, link_ok = True, probes = 0\<rparr>"
  let ?a = "\<lparr>pad_name = ''src_1'', current_caps = None, link_ok = True, probes = 0\<rparr>"
  have ok: "link_ok ?v" by simp
  from link_only_while_unlinked [where p = ?v and ps = "[?a]"] ok
  show ?thesis by simp
qed

subsection \<open>The configuration singleton\<close>

lemma Config_call_present:
  "Config_call to_int (Some c) env arg = (Some c, ([], Inr c))"
  by (simp add: Config_call_def ret_def)

lemma config_step_present: "config_step to_int op (Some c) = Some c"
  by (cases op) (simp_all add: Config_call_present)

lemma config_steps_present: "fold (config_step to_int) ops (Some c) = Some c"
  by (induction ops) (simp_all add: config_step_present)

text \<open>
  C9. Once a first construction has succeeded and stored the object \<open>c\<close>, every later
  construction, with any argument and any environment, returns \<open>c\<close> itself and runs
  no constructor; and no sequence of the class's operations (constructions and getters)
  changes the stored object, so its log level, input, output and number of workers stay
  what the first construction resolved.
\<close>

theorem config_singleton_idempotent:
  assumes "Config_call to_int None env0 arg0 = (inst, (es, Inr c))"
  shows "inst = Some c
         \<and> Config_call to_int inst env arg = (Some c, ([], Inr c))
         \<and> fold (config_step to_int) ops inst = Some c
         \<and> Config_call to_int (fold (config_step to_int) ops inst) env arg = (Some c, ([], Inr c))"
proof -
  have "inst = Some c"
    using assms by (auto simp: Config_call_def split: prod.splits sum.splits)
  then show ?thesis
    by (simp add: Config_call_present config_steps_present)
qed

theorem config_singleton_idempotent_witness:
  "Config_call (\<lambda>s. Inl (Raised ValueError)) (Some example_config)
     [''PIPELESS_N_WORKERS'' \<mapsto> ''7''] PNone = (Some example_config, ([], Inr example_config))
   \<and> fold (config_step (\<lambda>s. Inl (Raised ValueError)))
        [GetNWorkers, Construct [''PIPELESS_LOG_LEVEL'' \<mapsto> ''DEBUG''] PNone, GetLogLevel]
        (Some example_config) = Some example_config"
proof -
  let ?ti = "\<lambda>s::string. (Inl (Raised ValueError) :: failure + pyval)"
  have first: "Config_call ?ti None Map.empty example_document
      = (Some example_config, ([], Inr example_config))"
    by (simp add: Config_call_def example_config_built)
  show ?thesis
    using config_singleton_idempotent [OF first,
        where env = "[''PIPELESS_N_WORKERS'' \<mapsto> ''7'']" and arg = PNone
          and ops = "[GetNWorkers, Construct [''PIPELESS_LOG_LEVEL'' \<mapsto> ''DEBUG''] PNone, GetLogLevel]"]
    by simp
qed

end
